theory Spec2Isabelle
  imports Main "HOL-Library.Multiset"
begin

section \<open>The page: elements, document tree, browser state\<close>

text \<open>
  \<^verbatim>\<open>script.js\<close> is a set of DOM event handlers.  An element reference of the script
  (\<^verbatim>\<open>navToggle\<close>, \<^verbatim>\<open>link\<close>, \<^verbatim>\<open>toast\<close>, ...) is a \<open>ref\<close>; what the script reads and
  writes through a reference (\<^verbatim>\<open>classList\<close>, attributes, inline \<^verbatim>\<open>style\<close>, the layout
  numbers \<^verbatim>\<open>offsetTop\<close> and \<^verbatim>\<open>offsetHeight\<close>) lives in a store, so two variables that
  hold the same element alias.  The document is the tree of the attached nodes.
\<close>

type_synonym ref = nat

record element =
  tagName :: string
  classList :: "string list"
  attributes :: "string \<rightharpoonup> string"
  style :: "string \<rightharpoonup> string"
  offsetTop :: int
  offsetHeight :: int

datatype dom = Text string | Elem ref "dom list"

datatype error = TypeError | SyntaxError

text \<open>
  What the browser tells the script about itself: whether \<^verbatim>\<open>requestIdleCallback\<close> is in
  \<^verbatim>\<open>window\<close>, the answer of the reduced-motion media query, and whether
  \<^verbatim>\<open>document.readyState\<close> is \<^verbatim>\<open>'loading'\<close> when the script runs.
\<close>

record browser =
  hasRequestIdleCallback :: bool
  prefersReducedMotion :: bool
  readyStateLoading :: bool

text \<open>Closures of the script handed to timers, animation frames and the idle queue.\<close>

datatype callback =
    ToastFrame ref
  | ToastHide ref
  | ToastRemove ref
  | BoxUnscale ref
  | IdleInit

text \<open>
  The targets listeners are registered on, and the listeners of the script with the
  variables their closures capture.  \<^verbatim>\<open>body\<close> in \<^verbatim>\<open>initMobileMenu\<close> is
  \<^verbatim>\<open>document.body\<close>, which an HTML document always has once it is parsed, and the
  script starts no earlier; the other captured elements come from \<^verbatim>\<open>querySelector\<close>
  and may be \<^verbatim>\<open>null\<close>.
\<close>

datatype target = Node ref | Document | Window

record menu_env =
  navToggle :: ref
  navMenu :: "ref option"
  menuBody :: ref

datatype listener =
    ToggleClick menu_env
  | LinkCloseClick menu_env
  | OverlayClick menu_env
  | EscapeKeydown menu_env
  | ScrollClick "ref list" ref
  | CopyClick ref
  | RestartClick
  | RippleClick
  | LoadLog
  | InitListener
  | ThemeClick

datatype observer = RevealObserver | ActiveNavObserver "ref list"

text \<open>
  The state the script runs in: the store and the document, the registered listeners
  and observers, the callbacks waiting in the browser, what the script has asked for
  (scrolls, clipboard writes, console lines), local storage, and the selector engine
  of the browser, which answers for a selector text over a document.
\<close>

record page =
  heap :: "ref \<Rightarrow> element"
  tree :: "dom list"
  html :: ref
  head :: ref
  body :: ref
  nextRef :: ref
  listeners :: "(target \<times> string \<times> listener) list"
  observed :: "(observer \<times> ref) list"
  timers :: "(nat \<times> callback) list"
  frames :: "callback list"
  idleCallbacks :: "callback list"
  scrolls :: "int list"
  clipboardWrites :: "string list"
  console :: "string list"
  localStorage :: "string \<rightharpoonup> string"
  selectorEngine :: "string \<Rightarrow> dom list \<Rightarrow> (ref \<Rightarrow> element) \<Rightarrow> error + ref option"

subsection \<open>Element properties\<close>

definition add_token :: "string \<Rightarrow> string list \<Rightarrow> string list" where
  "add_token c cl = (if c \<in> set cl then cl else cl @ [c])"

definition remove_token :: "string \<Rightarrow> string list \<Rightarrow> string list" where
  "remove_token c cl = filter (\<lambda>x. x \<noteq> c) cl"

definition update_element :: "ref \<Rightarrow> (element \<Rightarrow> element) \<Rightarrow> page \<Rightarrow> page" where
  "update_element r f s = s\<lparr>heap := (heap s)(r := f (heap s r))\<rparr>"

definition classList_add :: "ref \<Rightarrow> string \<Rightarrow> page \<Rightarrow> page" where
  "classList_add r c = update_element r (\<lambda>e. e\<lparr>classList := add_token c (classList e)\<rparr>)"

definition classList_remove :: "ref \<Rightarrow> string \<Rightarrow> page \<Rightarrow> page" where
  "classList_remove r c = update_element r (\<lambda>e. e\<lparr>classList := remove_token c (classList e)\<rparr>)"

definition classList_contains :: "page \<Rightarrow> ref \<Rightarrow> string \<Rightarrow> bool" where
  "classList_contains s r c = (c \<in> set (classList (heap s r)))"

definition getAttribute :: "page \<Rightarrow> ref \<Rightarrow> string \<Rightarrow> string option" where
  "getAttribute s r a = attributes (heap s r) a"

definition setAttribute :: "ref \<Rightarrow> string \<Rightarrow> string \<Rightarrow> page \<Rightarrow> page" where
  "setAttribute r a v = update_element r (\<lambda>e. e\<lparr>attributes := (attributes e)(a \<mapsto> v)\<rparr>)"

definition set_style :: "ref \<Rightarrow> string \<Rightarrow> string \<Rightarrow> page \<Rightarrow> page" where
  "set_style r p v = update_element r (\<lambda>e. e\<lparr>style := (style e)(p \<mapsto> v)\<rparr>)"

subsection \<open>The document tree\<close>

fun refs :: "dom \<Rightarrow> ref list" where
  "refs (Text t) = []"
| "refs (Elem r ks) = r # concat (map refs ks)"

definition forest_refs :: "dom list \<Rightarrow> ref list" where
  "forest_refs f = concat (map refs f)"

fun is_elem :: "ref \<Rightarrow> dom \<Rightarrow> bool" where
  "is_elem a (Text t) = False"
| "is_elem a (Elem r ks) = (r = a)"

fun subtree :: "ref \<Rightarrow> dom \<Rightarrow> dom option"
  and forest_subtree :: "ref \<Rightarrow> dom list \<Rightarrow> dom option" where
  "subtree a (Text t) = None"
| "subtree a (Elem r ks) = (if r = a then Some (Elem r ks) else forest_subtree a ks)"
| "forest_subtree a [] = None"
| "forest_subtree a (k # ks) =
     (case subtree a k of Some d \<Rightarrow> Some d | None \<Rightarrow> forest_subtree a ks)"


text \<open>
  Reads through an element of the document.  A detached element has no subtree in
  \<open>tree\<close>; no handler of the script reads the children of a detached element.
\<close>

definition descendants :: "page \<Rightarrow> ref \<Rightarrow> ref list" where
  "descendants s r =
     (case forest_subtree r (tree s) of
        Some (Elem x ks) \<Rightarrow> forest_refs ks
      | _ \<Rightarrow> [])"


text \<open>\<^verbatim>\<open>a.contains(t)\<close>: \<open>t\<close> is \<open>a\<close> itself or one of its descendants.\<close>

definition contains :: "page \<Rightarrow> ref \<Rightarrow> ref \<Rightarrow> bool" where
  "contains s a t = (a = t \<or> t \<in> set (descendants s a))"

fun parent_in :: "ref \<Rightarrow> dom \<Rightarrow> ref option"
  and parent_forest :: "ref \<Rightarrow> dom list \<Rightarrow> ref option" where
  "parent_in a (Text t) = None"
| "parent_in a (Elem r ks) = (if list_ex (is_elem a) ks then Some r else parent_forest a ks)"
| "parent_forest a [] = None"
| "parent_forest a (k # ks) =
     (case parent_in a k of Some p \<Rightarrow> Some p | None \<Rightarrow> parent_forest a ks)"

definition parentElement :: "page \<Rightarrow> ref \<Rightarrow> ref option" where
  "parentElement s r = parent_forest r (tree s)"

text \<open>\<^verbatim>\<open>node.remove()\<close> takes the node, with its subtree, out of the document.\<close>

fun remove_from :: "ref \<Rightarrow> dom \<Rightarrow> dom"
  and remove_forest :: "ref \<Rightarrow> dom list \<Rightarrow> dom list" where
  "remove_from a (Text t) = Text t"
| "remove_from a (Elem r ks) = Elem r (remove_forest a ks)"
| "remove_forest a [] = []"
| "remove_forest a (k # ks) =
     (if is_elem a k then remove_forest a ks else remove_from a k # remove_forest a ks)"

definition node_remove :: "ref \<Rightarrow> page \<Rightarrow> page" where
  "node_remove r s = s\<lparr>tree := remove_forest r (tree s)\<rparr>"

text \<open>
  \<^verbatim>\<open>parent.appendChild(child)\<close> adds \<open>child\<close> as the last child of \<open>parent\<close>; the
  result is \<open>None\<close> when \<open>parent\<close> is not in the forest.
\<close>

fun append_to :: "ref \<Rightarrow> dom \<Rightarrow> dom \<Rightarrow> dom option"
  and append_forest :: "ref \<Rightarrow> dom \<Rightarrow> dom list \<Rightarrow> dom list option" where
  "append_to p c (Text t) = None"
| "append_to p c (Elem r ks) =
     (if r = p then Some (Elem r (ks @ [c]))
      else case append_forest p c ks of None \<Rightarrow> None | Some ks' \<Rightarrow> Some (Elem r ks'))"
| "append_forest p c [] = None"
| "append_forest p c (k # ks) =
     (case append_to p c k of
        Some k' \<Rightarrow> Some (k' # ks)
      | None \<Rightarrow> (case append_forest p c ks of None \<Rightarrow> None | Some ks' \<Rightarrow> Some (k # ks')))"

definition appendChild :: "ref \<Rightarrow> dom \<Rightarrow> page \<Rightarrow> page" where
  "appendChild p c s =
     (case append_forest p c (tree s) of None \<Rightarrow> s | Some f \<Rightarrow> s\<lparr>tree := f\<rparr>)"

text \<open>\<^verbatim>\<open>parent.replaceChild(new, old)\<close>.\<close>

fun replace_in :: "ref \<Rightarrow> dom \<Rightarrow> dom \<Rightarrow> dom"
  and replace_forest :: "ref \<Rightarrow> dom \<Rightarrow> dom list \<Rightarrow> dom list" where
  "replace_in old new (Text t) = Text t"
| "replace_in old new (Elem r ks) = Elem r (replace_forest old new ks)"
| "replace_forest old new [] = []"
| "replace_forest old new (k # ks) =
     (if is_elem old k then new # ks else replace_in old new k # replace_forest old new ks)"

definition replaceChild :: "dom \<Rightarrow> ref \<Rightarrow> page \<Rightarrow> page" where
  "replaceChild new old s = s\<lparr>tree := replace_forest old new (tree s)\<rparr>"

text \<open>
  \<^verbatim>\<open>document.createElement\<close> and \<^verbatim>\<open>cloneNode(true)\<close> allocate new elements.  A
  clone copies tag, classes, attributes and inline style of every element of the
  subtree; it copies no listener.
\<close>

definition blank_element :: "string \<Rightarrow> element" where
  "blank_element tag =
     \<lparr>tagName = tag, classList = [], attributes = Map.empty, style = Map.empty,
      offsetTop = 0, offsetHeight = 0\<rparr>"

definition createElement :: "string \<Rightarrow> page \<Rightarrow> ref \<times> page" where
  "createElement tag s =
     (nextRef s, s\<lparr>heap := (heap s)(nextRef s := blank_element tag), nextRef := Suc (nextRef s)\<rparr>)"

fun clone_dom :: "dom \<Rightarrow> page \<Rightarrow> dom \<times> page"
  and clone_forest :: "dom list \<Rightarrow> page \<Rightarrow> dom list \<times> page" where
  "clone_dom (Text t) s = (Text t, s)"
| "clone_dom (Elem r ks) s =
     (case clone_forest ks
             (s\<lparr>heap := (heap s)(nextRef s := heap s r), nextRef := Suc (nextRef s)\<rparr>) of
        (ks', s') \<Rightarrow> (Elem (nextRef s) ks', s'))"
| "clone_forest [] s = ([], s)"
| "clone_forest (k # ks) s =
     (case clone_dom k s of
        (k', s1) \<Rightarrow> (case clone_forest ks s1 of (ks', s2) \<Rightarrow> (k' # ks', s2)))"

definition cloneNode :: "ref \<Rightarrow> page \<Rightarrow> (dom \<times> page) option" where
  "cloneNode r s = (case forest_subtree r (tree s) of None \<Rightarrow> None | Some d \<Rightarrow> Some (clone_dom d s))"


definition document_head :: "page \<Rightarrow> ref option" where
  "document_head s = (if head s \<in> set (forest_refs (tree s)) then Some (head s) else None)"

subsection \<open>Selectors\<close>

text \<open>
  The selectors the script writes out: a class, an id, and \<^verbatim>\<open>.section[id]\<close> (a class
  together with the presence of an attribute).  Class names and ids are compared
  exactly, as in a document with a doctype.
\<close>

datatype selector = ClassSel string | IdSel string | ClassAttrSel string string

fun matches :: "page \<Rightarrow> selector \<Rightarrow> ref \<Rightarrow> bool" where
  "matches s (ClassSel c) r = (c \<in> set (classList (heap s r)))"
| "matches s (IdSel i) r = (attributes (heap s r) ''id'' = Some i)"
| "matches s (ClassAttrSel c a) r =
     (c \<in> set (classList (heap s r)) \<and> attributes (heap s r) a \<noteq> None)"

definition querySelectorAll :: "page \<Rightarrow> selector \<Rightarrow> ref list" where
  "querySelectorAll s sel = filter (matches s sel) (forest_refs (tree s))"

definition querySelector :: "page \<Rightarrow> selector \<Rightarrow> ref option" where
  "querySelector s sel = List.find (matches s sel) (forest_refs (tree s))"


text \<open>
  \<^verbatim>\<open>initSmoothScroll\<close> passes the \<^verbatim>\<open>href\<close> of the clicked link to
  \<^verbatim>\<open>document.querySelector\<close> as selector text, and \<^verbatim>\<open>querySelector\<close> raises a
  SyntaxError for text that is no selector.  Three kinds of text are decided here:
  \<^verbatim>\<open>#\<close> or \<^verbatim>\<open>.\<close> followed by an identifier and nothing else is the id or class
  selector; the empty text, \<^verbatim>\<open>#\<close> alone, and \<^verbatim>\<open>#\<close> followed by a digit are no
  selectors, whatever follows; every other text (compound and complex selectors,
  type selectors, escapes) is handed to \<open>selectorEngine\<close>, the selector engine of the
  browser, of which nothing is assumed.  An identifier here starts with a letter,
  \<^verbatim>\<open>_\<close> or a non-ASCII character and goes on with these, digits and \<^verbatim>\<open>-\<close>.
\<close>

definition ident_start :: "char \<Rightarrow> bool" where
  "ident_start c =
     (c \<in> set ''abcdefghijklmnopqrstuvwxyzABCDEFGHIJKLMNOPQRSTUVWXYZ_'' \<or> digit7 c)"

definition ident_char :: "char \<Rightarrow> bool" where
  "ident_char c = (ident_start c \<or> c \<in> set ''0123456789-'')"

fun is_ident :: "string \<Rightarrow> bool" where
  "is_ident [] = False"
| "is_ident (c # cs) = (ident_start c \<and> list_all ident_char cs)"

datatype parse_result = Simple selector | Malformed | Other

fun parse_selector :: "string \<Rightarrow> parse_result" where
  "parse_selector [] = Malformed"
| "parse_selector (c # cs) =
     (if c = CHR ''#'' then
        (if is_ident cs then Simple (IdSel cs)
         else case cs of
                [] \<Rightarrow> Malformed
              | d # ds \<Rightarrow> if d \<in> set ''0123456789'' then Malformed else Other)
      else if c = CHR ''.'' \<and> is_ident cs then Simple (ClassSel cs)
      else Other)"

text \<open>A \<^verbatim>\<open>null\<close> argument is converted to the text \<^verbatim>\<open>null\<close>.\<close>

definition selector_text :: "string option \<Rightarrow> string" where
  "selector_text v = (case v of None \<Rightarrow> ''null'' | Some t \<Rightarrow> t)"

definition querySelector_text :: "page \<Rightarrow> string option \<Rightarrow> error + ref option" where
  "querySelector_text s v =
     (case parse_selector (selector_text v) of
        Simple sel \<Rightarrow> Inr (querySelector s sel)
      | Malformed \<Rightarrow> Inl SyntaxError
      | Other \<Rightarrow> selectorEngine s (selector_text v) (tree s) (heap s))"

subsection \<open>Listeners and sequencing\<close>

definition addEventListener :: "target \<Rightarrow> string \<Rightarrow> listener \<Rightarrow> page \<Rightarrow> page" where
  "addEventListener t ev l s = s\<lparr>listeners := listeners s @ [(t, ev, l)]\<rparr>"

definition listeners_on :: "page \<Rightarrow> target \<Rightarrow> string \<Rightarrow> listener list" where
  "listeners_on s t ev = map (\<lambda>x. snd (snd x)) (filter (\<lambda>x. fst x = t \<and> fst (snd x) = ev) (listeners s))"

text \<open>Statements in sequence: an exception ends the function that raised it.\<close>

definition and_then ::
  "error option \<times> page \<Rightarrow> (page \<Rightarrow> error option \<times> page) \<Rightarrow> error option \<times> page" where
  "and_then r f = (case r of (Some e, s) \<Rightarrow> (Some e, s) | (None, s) \<Rightarrow> f s)"

section \<open>Mobile menu toggle\<close>

text \<open>
  \<^verbatim>\<open>closeMenu\<close> and \<^verbatim>\<open>openMenu\<close> of \<^verbatim>\<open>initMobileMenu\<close>.  Only \<^verbatim>\<open>navToggle\<close> is guarded
  by the initializer; \<^verbatim>\<open>navMenu\<close> may be \<^verbatim>\<open>null\<close>, and then the first statement raises
  a TypeError before anything is changed.
\<close>

definition closeMenu :: "menu_env \<Rightarrow> page \<Rightarrow> error option \<times> page" where
  "closeMenu env s =
     (case navMenu env of
        None \<Rightarrow> (Some TypeError, s)
      | Some m \<Rightarrow>
          (None,
           setAttribute (navToggle env) ''aria-expanded'' ''false''
             (classList_remove (menuBody env) ''menu-open''
               (classList_remove m ''active'' s))))"

definition openMenu :: "menu_env \<Rightarrow> page \<Rightarrow> error option \<times> page" where
  "openMenu env s =
     (case navMenu env of
        None \<Rightarrow> (Some TypeError, s)
      | Some m \<Rightarrow>
          (None,
           setAttribute (navToggle env) ''aria-expanded'' ''true''
             (classList_add (menuBody env) ''menu-open''
               (classList_add m ''active'' s))))"

definition toggleClick :: "menu_env \<Rightarrow> page \<Rightarrow> error option \<times> page" where
  "toggleClick env s =
     (let isExpanded = (getAttribute s (navToggle env) ''aria-expanded'' = Some ''true'')
      in if isExpanded then closeMenu env s else openMenu env s)"

definition linkCloseClick :: "menu_env \<Rightarrow> page \<Rightarrow> error option \<times> page" where
  "linkCloseClick env s = closeMenu env s"

text \<open>
  The overlay handler on \<^verbatim>\<open>body\<close>.  JavaScript's \<^verbatim>\<open>&&\<close> is evaluated left to right:
  \<^verbatim>\<open>navMenu.contains\<close> on a missing menu is reached, and raises, only when the body
  carries \<^verbatim>\<open>menu-open\<close>.
\<close>

definition overlayClick :: "menu_env \<Rightarrow> ref \<Rightarrow> page \<Rightarrow> error option \<times> page" where
  "overlayClick env tgt s =
     (if classList_contains s (menuBody env) ''menu-open'' then
        (case navMenu env of
           None \<Rightarrow> (Some TypeError, s)
         | Some m \<Rightarrow>
             if \<not> contains s m tgt \<and> \<not> contains s (navToggle env) tgt
             then closeMenu env s else (None, s))
      else (None, s))"

definition escapeKeydown :: "menu_env \<Rightarrow> string \<Rightarrow> page \<Rightarrow> error option \<times> page" where
  "escapeKeydown env key s =
     (if key = ''Escape'' \<and> classList_contains s (menuBody env) ''menu-open''
      then closeMenu env s else (None, s))"

text \<open>The user actions the four menu listeners react to.\<close>

datatype menu_event = ClickToggle | ClickLink | ClickAt ref | Keydown string

fun menu_handler :: "menu_env \<Rightarrow> menu_event \<Rightarrow> page \<Rightarrow> error option \<times> page" where
  "menu_handler env ClickToggle s = toggleClick env s"
| "menu_handler env ClickLink s = linkCloseClick env s"
| "menu_handler env (ClickAt t) s = overlayClick env t s"
| "menu_handler env (Keydown k) s = escapeKeydown env k s"

fun menu_run :: "menu_env \<Rightarrow> menu_event list \<Rightarrow> page \<Rightarrow> page" where
  "menu_run env [] s = s"
| "menu_run env (e # es) s = menu_run env es (snd (menu_handler env e s))"

text \<open>Menu state and ARIA attribute agree: open classes present iff \<^verbatim>\<open>aria-expanded\<close> is \<^verbatim>\<open>"true"\<close>.\<close>

definition menu_open :: "menu_env \<Rightarrow> ref \<Rightarrow> page \<Rightarrow> bool" where
  "menu_open env m s =
     (classList_contains s m ''active'' \<and> classList_contains s (menuBody env) ''menu-open'')"

definition menu_closed :: "menu_env \<Rightarrow> ref \<Rightarrow> page \<Rightarrow> bool" where
  "menu_closed env m s =
     (\<not> classList_contains s m ''active'' \<and> \<not> classList_contains s (menuBody env) ''menu-open'')"

definition aria_expanded :: "menu_env \<Rightarrow> page \<Rightarrow> bool" where
  "aria_expanded env s = (getAttribute s (navToggle env) ''aria-expanded'' = Some ''true'')"

definition menu_agrees :: "menu_env \<Rightarrow> ref \<Rightarrow> page \<Rightarrow> bool" where
  "menu_agrees env m s =
     (if aria_expanded env s then menu_open env m s else menu_closed env m s)"

section \<open>Smooth scroll and active link\<close>

record click_event =
  defaultPrevented :: bool

definition preventDefault :: "click_event \<Rightarrow> click_event" where
  "preventDefault e = e\<lparr>defaultPrevented := True\<rparr>"

definition scrollTo :: "int \<Rightarrow> page \<Rightarrow> page" where
  "scrollTo y s = s\<lparr>scrolls := scrolls s @ [y]\<rparr>"

text \<open>
  The click listener \<^verbatim>\<open>initSmoothScroll\<close> puts on every \<^verbatim>\<open>.nav__link\<close>; \<open>navLinks\<close> and
  \<open>link\<close> are the variables its closure captures.  \<^verbatim>\<open>document.querySelector('.nav')\<close>
  is dereferenced without a check.
\<close>

definition scrollClick ::
  "ref list \<Rightarrow> ref \<Rightarrow> click_event \<Rightarrow> page \<Rightarrow> error option \<times> click_event \<times> page" where
  "scrollClick navLinks link e s =
     (let e1 = preventDefault e;
          targetId = getAttribute s link ''href''
      in case querySelector_text s targetId of
           Inl err \<Rightarrow> (Some err, e1, s)
         | Inr None \<Rightarrow> (None, e1, s)
         | Inr (Some targetSection) \<Rightarrow>
             (case querySelector s (ClassSel ''nav'') of
                None \<Rightarrow> (Some TypeError, e1, s)
              | Some nav \<Rightarrow>
                  let navHeight = offsetHeight (heap s nav);
                      targetPosition = offsetTop (heap s targetSection) - navHeight - 20;
                      s1 = scrollTo targetPosition s;
                      s2 = fold (\<lambda>l. classList_remove l ''active'') navLinks s1
                  in (None, e1, classList_add link ''active'' s2)))"

definition initSmoothScroll :: "page \<Rightarrow> error option \<times> page" where
  "initSmoothScroll s =
     (let navLinks = querySelectorAll s (ClassSel ''nav__link'')
      in (None, fold (\<lambda>link. addEventListener (Node link) ''click'' (ScrollClick navLinks link))
                  navLinks s))"

text \<open>The intersection callback of \<^verbatim>\<open>initActiveNavOnScroll\<close>.\<close>

record intersection_entry =
  entry_target :: ref
  isIntersecting :: bool

definition hash_id :: "string option \<Rightarrow> string" where
  "hash_id v = ''#'' @ (case v of None \<Rightarrow> ''null'' | Some t \<Rightarrow> t)"

definition activeNavLink :: "string option \<Rightarrow> ref \<Rightarrow> page \<Rightarrow> page" where
  "activeNavLink sectionId link s =
     (let s1 = classList_remove link ''active'' s
      in if getAttribute s1 link ''href'' = Some (hash_id sectionId)
         then classList_add link ''active'' s1 else s1)"

definition activeNavEntry :: "ref list \<Rightarrow> intersection_entry \<Rightarrow> page \<Rightarrow> page" where
  "activeNavEntry navLinks entry s =
     (if isIntersecting entry
      then let sectionId = getAttribute s (entry_target entry) ''id''
           in fold (activeNavLink sectionId) navLinks s
      else s)"

definition activeNavCallback :: "ref list \<Rightarrow> intersection_entry list \<Rightarrow> page \<Rightarrow> page" where
  "activeNavCallback navLinks entries s = fold (activeNavEntry navLinks) entries s"

definition observe :: "observer \<Rightarrow> ref \<Rightarrow> page \<Rightarrow> page" where
  "observe obs r s = s\<lparr>observed := observed s @ [(obs, r)]\<rparr>"

definition initActiveNavOnScroll :: "page \<Rightarrow> error option \<times> page" where
  "initActiveNavOnScroll s =
     (let sections = querySelectorAll s (ClassAttrSel ''section'' ''id'');
          navLinks = querySelectorAll s (ClassSel ''nav__link'')
      in (None, fold (observe (ActiveNavObserver navLinks)) sections s))"

definition active_links :: "page \<Rightarrow> ref list \<Rightarrow> ref list" where
  "active_links s navLinks = filter (\<lambda>l. classList_contains s l ''active'') navLinks"

text \<open>The links whose \<^verbatim>\<open>href\<close> is a given text, and links with pairwise different \<^verbatim>\<open>href\<close>.\<close>

definition links_to :: "page \<Rightarrow> ref list \<Rightarrow> string \<Rightarrow> ref list" where
  "links_to s navLinks h = filter (\<lambda>l. getAttribute s l ''href'' = Some h) navLinks"

definition distinct_hrefs :: "page \<Rightarrow> ref list \<Rightarrow> bool" where
  "distinct_hrefs s navLinks = distinct (map (\<lambda>l. getAttribute s l ''href'') navLinks)"

section \<open>Scroll-triggered reveal\<close>

definition revealEntry :: "intersection_entry \<Rightarrow> page \<Rightarrow> page" where
  "revealEntry entry s =
     (if isIntersecting entry
      then set_style (entry_target entry) ''transform'' ''translateY(0)''
             (set_style (entry_target entry) ''opacity'' ''1'' s)
      else s)"

definition revealCallback :: "intersection_entry list \<Rightarrow> page \<Rightarrow> page" where
  "revealCallback entries s = fold revealEntry entries s"

definition hideSection :: "ref \<Rightarrow> page \<Rightarrow> page" where
  "hideSection section s =
     observe RevealObserver section
       (set_style section ''transition'' ''opacity 0.6s ease-out, transform 0.6s ease-out''
         (set_style section ''transform'' ''translateY(20px)''
           (set_style section ''opacity'' ''0'' s)))"

definition initScrollAnimations :: "browser \<Rightarrow> page \<Rightarrow> error option \<times> page" where
  "initScrollAnimations b s =
     (if prefersReducedMotion b then (None, s)
      else let sections = querySelectorAll s (ClassSel ''section'')
           in (None, fold hideSection sections s))"

section \<open>Toast notification and colour copy\<close>

definition setTimeout :: "callback \<Rightarrow> nat \<Rightarrow> page \<Rightarrow> page" where
  "setTimeout cb ms s = s\<lparr>timers := timers s @ [(ms, cb)]\<rparr>"


definition set_className :: "ref \<Rightarrow> string list \<Rightarrow> page \<Rightarrow> page" where
  "set_className r cl = update_element r (\<lambda>e. e\<lparr>classList := cl\<rparr>)"





definition toastFrame :: "ref \<Rightarrow> page \<Rightarrow> page" where
  "toastFrame toast s =
     set_style toast ''transform'' ''translateY(0)'' (set_style toast ''opacity'' ''1'' s)"

definition toastHide :: "ref \<Rightarrow> page \<Rightarrow> page" where
  "toastHide toast s =
     setTimeout (ToastRemove toast) 300
       (set_style toast ''transform'' ''translateY(20px)'' (set_style toast ''opacity'' ''0'' s))"

definition toastRemove :: "ref \<Rightarrow> page \<Rightarrow> page" where
  "toastRemove toast s = node_remove toast s"





definition initColorCopy :: "page \<Rightarrow> error option \<times> page" where
  "initColorCopy s =
     (let colorCards = querySelectorAll s (ClassSel ''color-card'')
      in (None, fold (\<lambda>c s. addEventListener (Node c) ''click'' (CopyClick c)
                               (set_style c ''cursor'' ''pointer'' s))
                  colorCards s))"





section \<open>Animation-demo restart\<close>

text \<open>
  The whole script is the body of a function that starts with \<^verbatim>\<open>'use strict'\<close>, so
  every function in it is strict, and reading \<^verbatim>\<open>arguments.callee\<close> in a strict
  function raises a TypeError.
\<close>

definition use_strict :: bool where
  "use_strict = True"

definition arguments_callee :: "bool \<Rightarrow> error + listener" where
  "arguments_callee strict = (if strict then Inl TypeError else Inr RestartClick)"

definition restartClick :: "bool \<Rightarrow> ref \<Rightarrow> page \<Rightarrow> error option \<times> page" where
  "restartClick strict this s =
     (let parent = parentElement s this
      in case cloneNode this s of
           None \<Rightarrow> (Some TypeError, s)
         | Some (clone, s1) \<Rightarrow>
             (case parent of
                None \<Rightarrow> (Some TypeError, s1)
              | Some p \<Rightarrow>
                  let s2 = replaceChild clone this s1
                  in (case arguments_callee strict of
                        Inl err \<Rightarrow> (Some err, s2)
                      | Inr callee \<Rightarrow>
                          (case clone of
                             Text t \<Rightarrow> (Some TypeError, s2)
                           | Elem c ks \<Rightarrow>
                               let s3 = addEventListener (Node c) ''click'' callee s2;
                                   s4 = set_style c ''transform'' ''scale(0.95)'' s3
                               in (None, setTimeout (BoxUnscale c) 100 s4)))))"

definition boxUnscale :: "ref \<Rightarrow> page \<Rightarrow> page" where
  "boxUnscale clone s = set_style clone ''transform'' [] s"

definition initAnimationDemos :: "page \<Rightarrow> error option \<times> page" where
  "initAnimationDemos s =
     (let animationBoxes = querySelectorAll s (ClassSel ''animation-box'')
      in (None, fold (\<lambda>box. addEventListener (Node box) ''click'' RestartClick) animationBoxes s))"

section \<open>The initializers and their sequencing\<close>

definition initMobileMenu :: "page \<Rightarrow> error option \<times> page" where
  "initMobileMenu s =
     (case querySelector s (ClassSel ''nav__toggle'') of
        None \<Rightarrow> (None, s)
      | Some t \<Rightarrow>
          let env = \<lparr>navToggle = t, navMenu = querySelector s (ClassSel ''nav__menu''),
                     menuBody = body s\<rparr>;
              navLinks = querySelectorAll s (ClassSel ''nav__link'');
              s1 = addEventListener (Node t) ''click'' (ToggleClick env) s;
              s2 = fold (\<lambda>link. addEventListener (Node link) ''click'' (LinkCloseClick env))
                     navLinks s1;
              s3 = addEventListener (Node (body s)) ''click'' (OverlayClick env) s2
          in (None, addEventListener Document ''keydown'' (EscapeKeydown env) s3))"

definition ripple_keyframes :: string where
  "ripple_keyframes =
     ''@keyframes ripple { to { transform: translate(-50%, -50%) scale(15); opacity: 0; } }''"

definition initButtonRipple :: "page \<Rightarrow> error option \<times> page" where
  "initButtonRipple s =
     (let buttons = querySelectorAll s (ClassSel ''btn'');
          s1 = fold (\<lambda>button. addEventListener (Node button) ''click'' RippleClick) buttons s
      in case querySelector s1 (IdSel ''ripple-animation'') of
           Some existing \<Rightarrow> (None, s1)
         | None \<Rightarrow>
             let (st, s2) = createElement ''style'' s1;
                 s3 = setAttribute st ''id'' ''ripple-animation'' s2
             in (case document_head s3 of
                   None \<Rightarrow> (Some TypeError, s3)
                 | Some h \<Rightarrow> (None, appendChild h (Elem st [Text ripple_keyframes]) s3)))"

definition monitorPerformance :: "page \<Rightarrow> error option \<times> page" where
  "monitorPerformance s = (None, addEventListener Window ''load'' LoadLog s)"

text \<open>
  \<^verbatim>\<open>init\<close>: the critical features are initialized at once, the others in the
  callback handed to \<^verbatim>\<open>initWhenIdle\<close>.
\<close>

datatype initializer =
    InitMobileMenu
  | InitSmoothScroll
  | InitScrollAnimations
  | InitColorCopy
  | InitAnimationDemos
  | InitActiveNavOnScroll
  | InitButtonRipple
  | MonitorPerformance

fun run_initializer :: "browser \<Rightarrow> initializer \<Rightarrow> page \<Rightarrow> error option \<times> page" where
  "run_initializer b InitMobileMenu s = initMobileMenu s"
| "run_initializer b InitSmoothScroll s = initSmoothScroll s"
| "run_initializer b InitScrollAnimations s = initScrollAnimations b s"
| "run_initializer b InitColorCopy s = initColorCopy s"
| "run_initializer b InitAnimationDemos s = initAnimationDemos s"
| "run_initializer b InitActiveNavOnScroll s = initActiveNavOnScroll s"
| "run_initializer b InitButtonRipple s = initButtonRipple s"
| "run_initializer b MonitorPerformance s = monitorPerformance s"

fun run_all :: "browser \<Rightarrow> initializer list \<Rightarrow> page \<Rightarrow> error option \<times> page" where
  "run_all b [] s = (None, s)"
| "run_all b (i # is) s = and_then (run_initializer b i s) (run_all b is)"

definition critical :: "initializer list" where
  "critical = [InitMobileMenu, InitSmoothScroll]"

definition nonCritical :: "initializer list" where
  "nonCritical =
     [InitScrollAnimations, InitColorCopy, InitAnimationDemos, InitActiveNavOnScroll,
      InitButtonRipple, MonitorPerformance]"

definition requestIdleCallback :: "callback \<Rightarrow> page \<Rightarrow> page" where
  "requestIdleCallback cb s = s\<lparr>idleCallbacks := idleCallbacks s @ [cb]\<rparr>"

definition initWhenIdle :: "browser \<Rightarrow> callback \<Rightarrow> page \<Rightarrow> page" where
  "initWhenIdle b cb s =
     (if hasRequestIdleCallback b then requestIdleCallback cb s else setTimeout cb 1 s)"

definition init :: "browser \<Rightarrow> page \<Rightarrow> error option \<times> page" where
  "init b s = and_then (run_all b critical s) (\<lambda>s'. (None, initWhenIdle b IdleInit s'))"

definition idleInit :: "browser \<Rightarrow> page \<Rightarrow> error option \<times> page" where
  "idleInit b s = run_all b nonCritical s"

text \<open>The last statement of the script: start when the DOM is ready.\<close>

definition script :: "browser \<Rightarrow> page \<Rightarrow> error option \<times> page" where
  "script b s =
     (if readyStateLoading b
      then (None, addEventListener Document ''DOMContentLoaded'' InitListener s)
      else init b s)"

fun run_callback :: "browser \<Rightarrow> callback \<Rightarrow> page \<Rightarrow> error option \<times> page" where
  "run_callback b (ToastFrame t) s = (None, toastFrame t s)"
| "run_callback b (ToastHide t) s = (None, toastHide t s)"
| "run_callback b (ToastRemove t) s = (None, toastRemove t s)"
| "run_callback b (BoxUnscale c) s = (None, boxUnscale c s)"
| "run_callback b IdleInit s = idleInit b s"

text \<open>
  The behaviours the specification lists for the two tiers of the startup, and the
  initializer of the script that provides each.
\<close>

datatype behaviour =
    MenuToggle
  | ThemeToggle
  | SmoothScroll
  | RevealAnimation
  | CopyToClipboard
  | DemoRestart
  | ActiveNavHighlight
  | Ripple
  | PerformanceLog

fun provides :: "initializer \<Rightarrow> behaviour" where
  "provides InitMobileMenu = MenuToggle"
| "provides InitSmoothScroll = SmoothScroll"
| "provides InitScrollAnimations = RevealAnimation"
| "provides InitColorCopy = CopyToClipboard"
| "provides InitAnimationDemos = DemoRestart"
| "provides InitActiveNavOnScroll = ActiveNavHighlight"
| "provides InitButtonRipple = Ripple"
| "provides MonitorPerformance = PerformanceLog"

section \<open>The manual dark-mode snippet of the README\<close>

text \<open>
  \<^verbatim>\<open>script.js\<close> has no theme toggle.  The README gives one, to be used without
  \<^verbatim>\<open>script.js\<close>; \<^verbatim>\<open>localStorage.getItem('theme') || 'light'\<close> takes \<^verbatim>\<open>'light'\<close> for a
  missing and for an empty value.
\<close>

definition savedTheme :: "page \<Rightarrow> string" where
  "savedTheme s =
     (case localStorage s ''theme'' of
        None \<Rightarrow> ''light''
      | Some v \<Rightarrow> if v = [] then ''light'' else v)"

definition manualDarkMode :: "page \<Rightarrow> page" where
  "manualDarkMode s =
     (let themeToggle = querySelector s (ClassSel ''theme-toggle'');
          s1 = setAttribute (html s) ''data-theme'' (savedTheme s) s
      in case themeToggle of
           None \<Rightarrow> s1
         | Some t \<Rightarrow> addEventListener (Node t) ''click'' ThemeClick s1)"

definition themeClick :: "page \<Rightarrow> page" where
  "themeClick s =
     (let current = getAttribute s (html s) ''data-theme'';
          newTheme = (if current = Some ''light'' then ''dark'' else ''light'');
          s1 = setAttribute (html s) ''data-theme'' newTheme s
      in s1\<lparr>localStorage := (localStorage s1)(''theme'' \<mapsto> newTheme)\<rparr>)"

text \<open>A reload parses the markup again; local storage survives it.\<close>

definition reload :: "page \<Rightarrow> page \<Rightarrow> page" where
  "reload markup s = markup\<lparr>localStorage := localStorage s\<rparr>"

section \<open>A sample page\<close>

text \<open>
  A page with the markup the README documents: a navigation bar with the menu
  toggle, a theme toggle and two links, and three sections, of which the last has no
  navigation link.  Its selector engine finds nothing; no sample below hands it a text.
\<close>

definition el :: "string \<Rightarrow> string list \<Rightarrow> (string \<times> string) list \<Rightarrow> int \<Rightarrow> int \<Rightarrow> element" where
  "el tag cls attrs y h =
     \<lparr>tagName = tag, classList = cls, attributes = map_of attrs, style = Map.empty,
      offsetTop = y, offsetHeight = h\<rparr>"

definition demo_heap :: "ref \<Rightarrow> element" where
  "demo_heap =
     (\<lambda>r. blank_element ''div'')
       (0 := el ''html'' [] [] 0 2000,
        1 := el ''head'' [] [] 0 0,
        2 := el ''body'' [] [] 0 2000,
        3 := el ''nav'' [''nav''] [] 0 64,
        4 := el ''button'' [''nav__toggle''] [(''aria-expanded'', ''false'')] 16 32,
        5 := el ''button'' [''theme-toggle''] [] 16 32,
        6 := el ''ul'' [''nav__menu''] [] 0 64,
        7 := el ''a'' [''nav__link''] [(''href'', ''#colors'')] 20 24,
        8 := el ''a'' [''nav__link''] [(''href'', ''#animations'')] 20 24,
        9 := el ''section'' [''section''] [(''id'', ''colors'')] 600 500,
        10 := el ''div'' [''color-card''] [] 700 120,
        11 := el ''div'' [''color-card__name''] [] 700 20,
        12 := el ''div'' [''color-card__value''] [] 720 20,
        13 := el ''section'' [''section''] [(''id'', ''animations'')] 1100 500,
        14 := el ''div'' [''animation-box'', ''animate-fade-in''] [] 1200 100,
        15 := el ''section'' [''section''] [(''id'', ''components'')] 1600 400,
        16 := el ''button'' [''btn'', ''btn--primary''] [] 1700 40)"

definition demo_tree :: "dom list" where
  "demo_tree =
     [Elem 0
        [Elem 1 [],
         Elem 2
           [Elem 3
              [Elem 4 [],
               Elem 5 [],
               Elem 6 [Elem 7 [Text ''Colors''], Elem 8 [Text ''Animations'']]],
            Elem 9 [Elem 10 [Elem 11 [Text ''Primary''], Elem 12 [Text ''#6366f1'']]],
            Elem 13 [Elem 14 [Text ''Fade In'']],
            Elem 15 [Elem 16 [Text ''Primary'']]]]]"

definition demo_page :: page where
  "demo_page =
     \<lparr>heap = demo_heap, tree = demo_tree, html = 0, head = 1, body = 2, nextRef = 17,
      listeners = [], observed = [], timers = [], frames = [], idleCallbacks = [],
      scrolls = [], clipboardWrites = [], console = [], localStorage = Map.empty,
      selectorEngine = (\<lambda>text t h. Inr None)\<rparr>"

definition demo_menu :: menu_env where
  "demo_menu = \<lparr>navToggle = 4, navMenu = Some 6, menuBody = 2\<rparr>"

definition demo_browser :: browser where
  "demo_browser =
     \<lparr>hasRequestIdleCallback = True, prefersReducedMotion = False, readyStateLoading = False\<rparr>"

text \<open>
  Variants of the sample page: the second link points at a section that is not there;
  the first link has the \<^verbatim>\<open>href\<close> \<^verbatim>\<open>#\<close> and the second \<^verbatim>\<open>#1abc\<close>, an id no element
  has; the navigation bar does not carry the class \<^verbatim>\<open>nav\<close>; a visitor who chose the
  dark theme before comes back.
\<close>

definition dangling_page :: page where
  "dangling_page = setAttribute 8 ''href'' ''#pricing'' demo_page"

definition hash_page :: page where
  "hash_page = setAttribute 8 ''href'' ''#1abc'' (setAttribute 7 ''href'' ''#'' demo_page)"

definition plain_nav_page :: page where
  "plain_nav_page = set_className 3 [] demo_page"

definition returning_page :: page where
  "returning_page = demo_page\<lparr>localStorage := [''theme'' \<mapsto> ''dark'']\<rparr>"

definition demo_click :: click_event where
  "demo_click = \<lparr>defaultPrevented = False\<rparr>"

text \<open>
  A page with nothing but a theme toggle button, visited again after the dark theme
  was chosen, and what a theme toggle leaves on a page: the \<^verbatim>\<open>data-theme\<close> attribute
  of the root element and the click listeners of the toggle button.
\<close>

definition toggle_page :: page where
  "toggle_page =
     \<lparr>heap = (\<lambda>r. blank_element ''div'')
               (0 := el ''html'' [] [] 0 600, 1 := el ''head'' [] [] 0 0,
                2 := el ''body'' [] [] 0 600, 3 := el ''button'' [''theme-toggle''] [] 16 32),
      tree = [Elem 0 [Elem 1 [], Elem 2 [Elem 3 [Text ''Toggle theme'']]]],
      html = 0, head = 1, body = 2, nextRef = 4,
      listeners = [], observed = [], timers = [], frames = [], idleCallbacks = [],
      scrolls = [], clipboardWrites = [], console = [],
      localStorage = [''theme'' \<mapsto> ''dark''],
      selectorEngine = (\<lambda>text t h. Inr None)\<rparr>"

definition theme_effects :: "page \<Rightarrow> string option \<times> listener list" where
  "theme_effects s =
     (getAttribute s (html s) ''data-theme'',
      case querySelector s (ClassSel ''theme-toggle'') of
        None \<Rightarrow> []
      | Some t \<Rightarrow> listeners_on s (Node t) ''click'')"


section \<open>Properties of the mobile menu\<close>

lemmas prop_defs = classList_add_def classList_remove_def classList_contains_def
  getAttribute_def setAttribute_def set_style_def update_element_def add_token_def remove_token_def

lemmas demo_defs = demo_page_def demo_heap_def demo_tree_def demo_menu_def demo_browser_def
  el_def blank_element_def

lemma closeMenu_closed:
  "navMenu env = Some m \<Longrightarrow>
     fst (closeMenu env s) = None \<and>
     menu_closed env m (snd (closeMenu env s)) \<and>
     getAttribute (snd (closeMenu env s)) (navToggle env) ''aria-expanded'' = Some ''false''"
  by (simp add: closeMenu_def menu_closed_def prop_defs)

lemma openMenu_open:
  "navMenu env = Some m \<Longrightarrow>
     fst (openMenu env s) = None \<and>
     menu_open env m (snd (openMenu env s)) \<and>
     getAttribute (snd (openMenu env s)) (navToggle env) ''aria-expanded'' = Some ''true''"
  by (simp add: openMenu_def menu_open_def prop_defs)

lemma closeMenu_agrees: "navMenu env = Some m \<Longrightarrow> menu_agrees env m (snd (closeMenu env s))"
  using closeMenu_closed [of env m s] by (simp add: menu_agrees_def aria_expanded_def)

lemma openMenu_agrees: "navMenu env = Some m \<Longrightarrow> menu_agrees env m (snd (openMenu env s))"
  using openMenu_open [of env m s] by (simp add: menu_agrees_def aria_expanded_def)

lemma menu_handler_agrees:
  "navMenu env = Some m \<Longrightarrow> menu_agrees env m s \<Longrightarrow> menu_agrees env m (snd (menu_handler env ev s))"
  by (cases ev)
     (simp_all add: toggleClick_def linkCloseClick_def overlayClick_def escapeKeydown_def
        closeMenu_agrees openMenu_agrees)

lemma menu_handler_no_error:
  "navMenu env = Some m \<Longrightarrow> fst (menu_handler env ev s) = None"
  by (cases ev)
     (simp_all add: toggleClick_def linkCloseClick_def overlayClick_def escapeKeydown_def
        closeMenu_closed openMenu_open)

lemma menu_run_agrees:
  "navMenu env = Some m \<Longrightarrow> menu_agrees env m s \<Longrightarrow> menu_agrees env m (menu_run env evs s)"
  by (induction evs arbitrary: s) (simp_all add: menu_handler_agrees)

lemma toggle_twice:
  assumes m: "navMenu env = Some m" and closed: "\<not> aria_expanded env s"
  shows "menu_open env m (snd (toggleClick env s))"
    and "getAttribute (snd (toggleClick env s)) (navToggle env) ''aria-expanded'' = Some ''true''"
    and "menu_closed env m (snd (toggleClick env (snd (toggleClick env s))))"
    and "getAttribute (snd (toggleClick env (snd (toggleClick env s)))) (navToggle env)
           ''aria-expanded'' = Some ''false''"
proof -
  have first: "toggleClick env s = openMenu env s"
    using closed by (simp add: toggleClick_def aria_expanded_def)
  show o: "menu_open env m (snd (toggleClick env s))"
    and a: "getAttribute (snd (toggleClick env s)) (navToggle env) ''aria-expanded'' = Some ''true''"
    using openMenu_open [OF m, of s] by (simp_all add: first)
  have second: "toggleClick env (snd (toggleClick env s)) = closeMenu env (snd (toggleClick env s))"
    using a by (simp add: toggleClick_def)
  show "menu_closed env m (snd (toggleClick env (snd (toggleClick env s))))"
    and "getAttribute (snd (toggleClick env (snd (toggleClick env s)))) (navToggle env)
           ''aria-expanded'' = Some ''false''"
    using closeMenu_closed [OF m, of "snd (toggleClick env s)"] by (simp_all add: second)
qed

text \<open>
  Claim C5.  On a page with a menu, no menu handler raises; after a click on the toggle
  or on a navigation link the menu carries its open classes (\<^verbatim>\<open>active\<close> on the menu,
  \<^verbatim>\<open>menu-open\<close> on the body) exactly when \<^verbatim>\<open>aria-expanded\<close> is \<^verbatim>\<open>"true"\<close>; every
  sequence of toggle clicks, link clicks, clicks elsewhere and key presses keeps that
  agreement; and a click on the toggle of a closed menu opens it with
  \<^verbatim>\<open>aria-expanded="true"\<close>, a second click closes it with \<^verbatim>\<open>aria-expanded="false"\<close>.
\<close>

theorem menu_state_agrees_with_aria:
  assumes m: "navMenu env = Some m"
  shows "fst (menu_handler env ev s) = None \<and>
         menu_agrees env m (snd (menu_handler env ClickToggle s)) \<and>
         menu_agrees env m (snd (menu_handler env ClickLink s)) \<and>
         (menu_agrees env m s \<longrightarrow> menu_agrees env m (menu_run env evs s)) \<and>
         (\<not> aria_expanded env s \<longrightarrow>
            menu_open env m (snd (toggleClick env s)) \<and>
            getAttribute (snd (toggleClick env s)) (navToggle env) ''aria-expanded'' = Some ''true'' \<and>
            menu_closed env m (snd (toggleClick env (snd (toggleClick env s)))) \<and>
            getAttribute (snd (toggleClick env (snd (toggleClick env s)))) (navToggle env)
              ''aria-expanded'' = Some ''false'')"
proof -
  have "fst (menu_handler env ev s) = None"
    using m by (rule menu_handler_no_error)
  moreover have "menu_agrees env m (snd (menu_handler env ClickToggle s))"
    using m by (simp add: toggleClick_def closeMenu_agrees openMenu_agrees)
  moreover have "menu_agrees env m (snd (menu_handler env ClickLink s))"
    using m by (simp add: linkCloseClick_def closeMenu_agrees)
  moreover have "menu_agrees env m s \<longrightarrow> menu_agrees env m (menu_run env evs s)"
    using m by (simp add: menu_run_agrees)
  ultimately show ?thesis
    using toggle_twice [OF m] by blast
qed

text \<open>The sample page starts closed and in agreement; five events later it still agrees.\<close>

lemma demo_menu_start:
  "navMenu demo_menu = Some 6" "menu_agrees demo_menu 6 demo_page" "\<not> aria_expanded demo_menu demo_page"
  by (simp_all add: demo_defs menu_agrees_def aria_expanded_def menu_closed_def menu_open_def prop_defs)

theorem menu_state_agrees_with_aria_witness:
  "navMenu demo_menu = Some 6 \<and> menu_agrees demo_menu 6 demo_page \<and>
   \<not> aria_expanded demo_menu demo_page \<and>
   fst (menu_handler demo_menu (Keydown ''Escape'') demo_page) = None \<and>
   menu_agrees demo_menu 6
     (menu_run demo_menu [ClickToggle, ClickAt 9, ClickToggle, Keydown ''Escape'', ClickLink] demo_page) \<and>
   menu_open demo_menu 6 (snd (toggleClick demo_menu demo_page)) \<and>
   menu_closed demo_menu 6 (snd (toggleClick demo_menu (snd (toggleClick demo_menu demo_page))))"
  using menu_state_agrees_with_aria [of demo_menu 6 "Keydown ''Escape''" demo_page
         "[ClickToggle, ClickAt 9, ClickToggle, Keydown ''Escape'', ClickLink]"]
    demo_menu_start
  by simp


section \<open>Properties of the reveal animation\<close>

text \<open>
  Claim C9.  With the reduced-motion preference set when it runs, \<^verbatim>\<open>initScrollAnimations\<close>
  returns at once: it raises nothing and leaves the page as it is, so no section gets
  the hidden initial style and no section is handed to an intersection observer.
\<close>

theorem reduced_motion_disables_reveal:
  "prefersReducedMotion b \<Longrightarrow> initScrollAnimations b s = (None, s)"
  by (simp add: initScrollAnimations_def)

text \<open>On the sample page; without the preference the first section does get \<^verbatim>\<open>opacity: 0\<close>.\<close>

theorem reduced_motion_disables_reveal_witness:
  "prefersReducedMotion (demo_browser\<lparr>prefersReducedMotion := True\<rparr>) \<and>
   initScrollAnimations (demo_browser\<lparr>prefersReducedMotion := True\<rparr>) demo_page = (None, demo_page) \<and>
   style (heap demo_page 9) ''opacity'' = None \<and>
   style (heap (snd (initScrollAnimations demo_browser demo_page)) 9) ''opacity'' = Some ''0''"
proof -
  have h: "prefersReducedMotion (demo_browser\<lparr>prefersReducedMotion := True\<rparr>)"
    by simp
  have contrast: "style (heap demo_page 9) ''opacity'' = None \<and>
      style (heap (snd (initScrollAnimations demo_browser demo_page)) 9) ''opacity'' = Some ''0''"
    by code_simp
  show ?thesis
    using h reduced_motion_disables_reveal [OF h, of demo_page] contrast by blast
qed

section \<open>Properties of the smooth-scroll handler\<close>

text \<open>
  What the guard \<^verbatim>\<open>if (targetSection)\<close> covers: when the lookup returns \<^verbatim>\<open>null\<close>, the
  click handler raises no error and requests no scroll.
\<close>

lemma null_lookup_no_scroll:
  assumes "querySelector_text s (getAttribute s link ''href'') = Inr None"
  shows "fst (scrollClick navLinks link e s) = None \<and>
         scrolls (snd (snd (scrollClick navLinks link e s))) = scrolls s"
  using assms by (simp add: scrollClick_def)

text \<open>
  What it does not cover: the lookup itself raises for an \<^verbatim>\<open>href\<close> that is no
  selector, on every page and before the guard is reached; no scroll is requested.
\<close>

lemma hash_href_raises:
  assumes "getAttribute s link ''href'' = Some ''#''"
  shows "fst (scrollClick navLinks link e s) = Some SyntaxError \<and>
         snd (snd (scrollClick navLinks link e s)) = s"
  using assms by (simp add: scrollClick_def querySelector_text_def selector_text_def)

text \<open>
  Claim C8, on the sample page whose links have the \<^verbatim>\<open>href\<close>s \<^verbatim>\<open>#\<close> and \<^verbatim>\<open>#1abc\<close>.  No
  element has the id \<^verbatim>\<open>1abc\<close>.  A click on either link requests no scroll and raises
  a SyntaxError.
\<close>

theorem malformed_href_raises:
  "getAttribute hash_page 7 ''href'' = Some ''#'' \<and>
   getAttribute hash_page 8 ''href'' = Some ''#1abc'' \<and>
   querySelector hash_page (IdSel ''1abc'') = None \<and>
   fst (scrollClick [7, 8] 7 demo_click hash_page) = Some SyntaxError \<and>
   scrolls (snd (snd (scrollClick [7, 8] 7 demo_click hash_page))) = [] \<and>
   fst (scrollClick [7, 8] 8 demo_click hash_page) = Some SyntaxError \<and>
   scrolls (snd (snd (scrollClick [7, 8] 8 demo_click hash_page))) = []"
  by code_simp

text \<open>The second link of \<open>dangling_page\<close> points at \<^verbatim>\<open>#pricing\<close>, which no element has as id.\<close>

lemma dangling_lookup:
  "querySelector_text dangling_page (getAttribute dangling_page 8 ''href'') = Inr None"
  by code_simp

lemma dangling_start:
  "scrolls dangling_page = []" "active_links dangling_page [7, 8] = []"
  "\<not> defaultPrevented demo_click"
  by code_simp+

text \<open>
  Claim C10.  The click handler calls \<^verbatim>\<open>preventDefault\<close> on every path, whatever the
  lookup of the target gives; and when the lookup finds no element the page is left as
  it was, so the same navigation links are active after the click as before.
\<close>

theorem scroll_click_prevents_default:
  "defaultPrevented (fst (snd (scrollClick navLinks link e s))) \<and>
   (querySelector_text s (getAttribute s link ''href'') = Inr None \<longrightarrow>
      snd (snd (scrollClick navLinks link e s)) = s \<and>
      active_links (snd (snd (scrollClick navLinks link e s))) navLinks = active_links s navLinks)"
  by (simp add: scrollClick_def preventDefault_def Let_def split: sum.split option.split)

theorem scroll_click_prevents_default_witness:
  "\<not> defaultPrevented demo_click \<and>
   defaultPrevented (fst (snd (scrollClick [7, 8] 8 demo_click dangling_page))) \<and>
   querySelector_text dangling_page (getAttribute dangling_page 8 ''href'') = Inr None \<and>
   snd (snd (scrollClick [7, 8] 8 demo_click dangling_page)) = dangling_page \<and>
   active_links (snd (snd (scrollClick [7, 8] 8 demo_click dangling_page))) [7, 8] = []"
  using scroll_click_prevents_default [of "[7, 8]" 8 demo_click dangling_page]
    dangling_lookup dangling_start(2,3)
  by simp

section \<open>Properties of the animation-demo restart\<close>

text \<open>In strict code the handler raises on every click, whatever the page.\<close>

lemma restart_click_always_raises:
  "fst (restartClick use_strict this s) = Some TypeError"
  by (simp add: restartClick_def use_strict_def arguments_callee_def Let_def
      split: option.split prod.split)

text \<open>
  Claim C1, on the sample page.  \<^verbatim>\<open>initAnimationDemos\<close> puts the handler on the box
  (element 14).  The click replaces the box by its clone (element 17) and then raises a
  TypeError at \<^verbatim>\<open>arguments.callee\<close>: the clone has no click listener, no
  \<^verbatim>\<open>scale(0.95)\<close> transform, and no timer is set.
\<close>

theorem restart_click_raises:
  "listeners_on (snd (initAnimationDemos demo_page)) (Node 14) ''click'' = [RestartClick] \<and>
   fst (restartClick use_strict 14 (snd (initAnimationDemos demo_page))) = Some TypeError \<and>
   parentElement (snd (restartClick use_strict 14 (snd (initAnimationDemos demo_page)))) 14 = None \<and>
   parentElement (snd (restartClick use_strict 14 (snd (initAnimationDemos demo_page)))) 17 = Some 13 \<and>
   listeners_on (snd (restartClick use_strict 14 (snd (initAnimationDemos demo_page)))) (Node 17) ''click'' = [] \<and>
   style (heap (snd (restartClick use_strict 14 (snd (initAnimationDemos demo_page)))) 17) ''transform'' = None \<and>
   timers (snd (restartClick use_strict 14 (snd (initAnimationDemos demo_page)))) = []"
  by code_simp

text \<open>
  Claim C2, on the sample page whose navigation bar has no class \<^verbatim>\<open>nav\<close>.  \<^verbatim>\<open>init\<close>
  raises nothing and puts the scroll handler on the first link; a click on that link,
  whose target exists, raises a TypeError at \<^verbatim>\<open>document.querySelector('.nav').offsetHeight\<close>.
\<close>

theorem missing_nav_raises:
  "querySelector plain_nav_page (ClassSel ''nav'') = None \<and>
   fst (init demo_browser plain_nav_page) = None \<and>
   listeners_on (snd (init demo_browser plain_nav_page)) (Node 7) ''click''
     = [LinkCloseClick demo_menu, ScrollClick [7, 8] 7] \<and>
   fst (scrollClick [7, 8] 7 demo_click (snd (init demo_browser plain_nav_page))) = Some TypeError"
  by code_simp

section \<open>Properties of the startup\<close>

text \<open>
  Claim C3 as stated fails: the behaviours initialized at once are not the menu toggle,
  the theme toggle and the smooth scroll, since no initializer of the script provides
  a theme toggle.
\<close>

theorem theme_toggle_not_initialized:
  "set (map provides critical) \<noteq> {MenuToggle, ThemeToggle, SmoothScroll}"
  by (auto simp add: critical_def)

lemma addEventListener_fold_fields:
  "heap (fold (\<lambda>x. addEventListener (t x) ev (l x)) xs s) = heap s"
  "tree (fold (\<lambda>x. addEventListener (t x) ev (l x)) xs s) = tree s"
  "observed (fold (\<lambda>x. addEventListener (t x) ev (l x)) xs s) = observed s"
  "timers (fold (\<lambda>x. addEventListener (t x) ev (l x)) xs s) = timers s"
  "idleCallbacks (fold (\<lambda>x. addEventListener (t x) ev (l x)) xs s) = idleCallbacks s"
  by (induction xs arbitrary: s; simp add: addEventListener_def)+

lemma addEventListener_fields:
  "heap (addEventListener t ev l s) = heap s"
  "tree (addEventListener t ev l s) = tree s"
  "observed (addEventListener t ev l s) = observed s"
  "timers (addEventListener t ev l s) = timers s"
  "idleCallbacks (addEventListener t ev l s) = idleCallbacks s"
  by (simp_all add: addEventListener_def)

lemma initMobileMenu_fields:
  "fst (initMobileMenu s) = None"
  "heap (snd (initMobileMenu s)) = heap s"
  "tree (snd (initMobileMenu s)) = tree s"
  "observed (snd (initMobileMenu s)) = observed s"
  "timers (snd (initMobileMenu s)) = timers s"
  "idleCallbacks (snd (initMobileMenu s)) = idleCallbacks s"
  by (simp_all add: initMobileMenu_def Let_def addEventListener_fold_fields
        addEventListener_fields split: option.split)

lemma initSmoothScroll_fields:
  "fst (initSmoothScroll s) = None"
  "heap (snd (initSmoothScroll s)) = heap s"
  "tree (snd (initSmoothScroll s)) = tree s"
  "observed (snd (initSmoothScroll s)) = observed s"
  "timers (snd (initSmoothScroll s)) = timers s"
  "idleCallbacks (snd (initSmoothScroll s)) = idleCallbacks s"
  by (simp_all add: initSmoothScroll_def Let_def addEventListener_fold_fields)

lemma run_critical:
  "run_all b critical s = (None, snd (initSmoothScroll (snd (initMobileMenu s))))"
  using initMobileMenu_fields(1) [of s] initSmoothScroll_fields(1) [of "snd (initMobileMenu s)"]
  by (cases "initMobileMenu s"; cases "initSmoothScroll (snd (initMobileMenu s))")
     (simp add: critical_def and_then_def)

lemma critical_fields:
  "heap (snd (run_all b critical s)) = heap s"
  "tree (snd (run_all b critical s)) = tree s"
  "observed (snd (run_all b critical s)) = observed s"
  "timers (snd (run_all b critical s)) = timers s"
  "idleCallbacks (snd (run_all b critical s)) = idleCallbacks s"
  by (simp_all add: run_critical initMobileMenu_fields initSmoothScroll_fields)

lemma init_eq: "init b s = (None, initWhenIdle b IdleInit (snd (run_all b critical s)))"
  by (simp add: init_def run_critical and_then_def)

text \<open>
  Claim C3, amended.  The script starts \<^verbatim>\<open>init\<close> at once unless the document is still
  loading, and then on \<^verbatim>\<open>DOMContentLoaded\<close>.  \<^verbatim>\<open>init\<close> runs exactly the menu-toggle and
  smooth-scroll initializers, which raise nothing, and hands one callback to
  \<^verbatim>\<open>requestIdleCallback\<close>, or to \<^verbatim>\<open>setTimeout\<close> with a delay of 1 where
  \<^verbatim>\<open>requestIdleCallback\<close> is missing; until that callback runs no element is restyled,
  nothing is added to the document and nothing is observed.  The callback runs the
  initializers of reveal animation, copy-to-clipboard, demo restart, active-nav
  highlight, ripple and performance log.
\<close>

theorem startup_two_tiers:
  "map provides critical = [MenuToggle, SmoothScroll] \<and>
   map provides nonCritical =
     [RevealAnimation, CopyToClipboard, DemoRestart, ActiveNavHighlight, Ripple, PerformanceLog] \<and>
   script b s =
     (if readyStateLoading b
      then (None, addEventListener Document ''DOMContentLoaded'' InitListener s)
      else init b s) \<and>
   init b s = (None, initWhenIdle b IdleInit (snd (run_all b critical s))) \<and>
   idleCallbacks (snd (init b s)) =
     (if hasRequestIdleCallback b then idleCallbacks s @ [IdleInit] else idleCallbacks s) \<and>
   timers (snd (init b s)) =
     (if hasRequestIdleCallback b then timers s else timers s @ [(1, IdleInit)]) \<and>
   heap (snd (init b s)) = heap s \<and>
   tree (snd (init b s)) = tree s \<and>
   observed (snd (init b s)) = observed s \<and>
   run_callback b IdleInit s = run_all b nonCritical s"
  by (simp add: init_eq initWhenIdle_def requestIdleCallback_def setTimeout_def critical_fields
        script_def idleInit_def)
     (simp add: critical_def nonCritical_def)

theorem startup_two_tiers_witness:
  "idleCallbacks (snd (init demo_browser demo_page)) = [IdleInit] \<and>
   timers (snd (init demo_browser demo_page)) = [] \<and>
   timers (snd (init (demo_browser\<lparr>hasRequestIdleCallback := False\<rparr>) demo_page)) = [(1, IdleInit)] \<and>
   observed (snd (init demo_browser demo_page)) = [] \<and>
   script demo_browser demo_page = init demo_browser demo_page"
proof -
  have start: "idleCallbacks demo_page = []" "timers demo_page = []" "observed demo_page = []"
    "hasRequestIdleCallback demo_browser" "\<not> readyStateLoading demo_browser"
    by (simp_all add: demo_page_def demo_browser_def)
  note here = startup_two_tiers [of demo_browser demo_page]
  note there = startup_two_tiers [of "demo_browser\<lparr>hasRequestIdleCallback := False\<rparr>" demo_page]
  note started = here [THEN conjunct2, THEN conjunct2, THEN conjunct1]
  note queued = here [THEN conjunct2, THEN conjunct2, THEN conjunct2, THEN conjunct2]
  note timed = there [THEN conjunct2, THEN conjunct2, THEN conjunct2, THEN conjunct2]
  show ?thesis
    using started queued timed start by simp
qed

section \<open>Properties of the theme toggle\<close>

text \<open>
  Claim C4 as stated fails: on a page with a theme toggle button and the stored
  preference \<^verbatim>\<open>dark\<close>, the script and its idle callback leave the root element without
  \<^verbatim>\<open>data-theme\<close> and the button without a click listener.
\<close>

theorem script_has_no_theme_toggle:
  "theme_effects (snd (idleInit demo_browser (snd (script demo_browser toggle_page)))) = (None, [])"
  by code_simp

lemma manualDarkMode_fields:
  "html (manualDarkMode s) = html s" "localStorage (manualDarkMode s) = localStorage s"
  by (simp_all add: manualDarkMode_def Let_def setAttribute_def update_element_def
        addEventListener_def split: option.split)

lemma manualDarkMode_applies:
  "getAttribute (manualDarkMode s) (html s) ''data-theme'' = Some (savedTheme s)"
  by (simp add: manualDarkMode_def Let_def prop_defs addEventListener_def split: option.split)

lemma themeClick_flips:
  "getAttribute (themeClick s) (html s) ''data-theme'' =
     Some (if getAttribute s (html s) ''data-theme'' = Some ''light'' then ''dark'' else ''light'')"
  "localStorage (themeClick s) ''theme'' =
     Some (if getAttribute s (html s) ''data-theme'' = Some ''light'' then ''dark'' else ''light'')"
  by (simp_all add: themeClick_def Let_def prop_defs)

text \<open>
  Claim C4, amended.  The behaviour is that of the README's manual snippet, not of
  \<^verbatim>\<open>script.js\<close>.  At load the snippet applies the stored preference as \<^verbatim>\<open>data-theme\<close>
  of the root element, \<^verbatim>\<open>light\<close> when nothing or the empty text is stored, leaves local
  storage alone, and puts a click listener on the toggle button.  A click turns
  \<^verbatim>\<open>light\<close> into \<^verbatim>\<open>dark\<close> and anything else into \<^verbatim>\<open>light\<close>, applies the new value and
  stores it under the key \<^verbatim>\<open>theme\<close>, changing no other key.  After a reload the snippet
  applies the stored value again.
\<close>

theorem manual_dark_mode_toggles:
  "getAttribute (manualDarkMode s) (html s) ''data-theme''
     = Some (case localStorage s ''theme'' of
               None \<Rightarrow> ''light''
             | Some v \<Rightarrow> if v = [] then ''light'' else v) \<and>
   localStorage (manualDarkMode s) = localStorage s \<and>
   (querySelector s (ClassSel ''theme-toggle'') = Some t \<longrightarrow>
      listeners_on (manualDarkMode s) (Node t) ''click''
        = listeners_on s (Node t) ''click'' @ [ThemeClick]) \<and>
   getAttribute (themeClick s) (html s) ''data-theme''
     = Some (if getAttribute s (html s) ''data-theme'' = Some ''light''
             then ''dark'' else ''light'') \<and>
   localStorage (themeClick s)
     = (localStorage s)
         (''theme'' \<mapsto> (if getAttribute s (html s) ''data-theme'' = Some ''light''
                        then ''dark'' else ''light'')) \<and>
   getAttribute (manualDarkMode (reload markup (themeClick s))) (html markup) ''data-theme''
     = localStorage (themeClick s) ''theme''"
proof -
  have listen: "querySelector s (ClassSel ''theme-toggle'') = Some t \<longrightarrow>
      listeners_on (manualDarkMode s) (Node t) ''click''
        = listeners_on s (Node t) ''click'' @ [ThemeClick]"
    by (simp add: manualDarkMode_def Let_def listeners_on_def addEventListener_def
          setAttribute_def update_element_def querySelector_def)
  have stored: "localStorage (themeClick s)
     = (localStorage s)
         (''theme'' \<mapsto> (if getAttribute s (html s) ''data-theme'' = Some ''light''
                        then ''dark'' else ''light''))"
    by (simp add: themeClick_def Let_def prop_defs)
  have again: "getAttribute (manualDarkMode (reload markup (themeClick s))) (html markup) ''data-theme''
     = localStorage (themeClick s) ''theme''"
    using manualDarkMode_applies [of "reload markup (themeClick s)"] themeClick_flips(2) [of s]
    by (simp add: reload_def savedTheme_def)
  have load: "getAttribute (manualDarkMode s) (html s) ''data-theme''
     = Some (case localStorage s ''theme'' of
               None \<Rightarrow> ''light''
             | Some v \<Rightarrow> if v = [] then ''light'' else v)"
    using manualDarkMode_applies [of s] by (simp add: savedTheme_def)
  show ?thesis
    using load manualDarkMode_fields(2) [of s] listen themeClick_flips(1) [of s] stored again
    by blast
qed

text \<open>
  On the sample page with nothing, the empty text, \<^verbatim>\<open>dark\<close> and \<^verbatim>\<open>sepia\<close> stored, and
  clicks from \<^verbatim>\<open>light\<close>, \<^verbatim>\<open>dark\<close> and \<^verbatim>\<open>sepia\<close>.
\<close>

theorem manual_dark_mode_toggles_witness:
  "getAttribute (manualDarkMode demo_page) 0 ''data-theme'' = Some ''light'' \<and>
   getAttribute (manualDarkMode (demo_page\<lparr>localStorage := [''theme'' \<mapsto> []]\<rparr>)) 0 ''data-theme''
     = Some ''light'' \<and>
   getAttribute (manualDarkMode returning_page) 0 ''data-theme'' = Some ''dark'' \<and>
   getAttribute (manualDarkMode (demo_page\<lparr>localStorage := [''theme'' \<mapsto> ''sepia'']\<rparr>)) 0
     ''data-theme'' = Some ''sepia'' \<and>
   querySelector demo_page (ClassSel ''theme-toggle'') = Some 5 \<and>
   listeners_on (manualDarkMode demo_page) (Node 5) ''click'' = [ThemeClick] \<and>
   getAttribute (themeClick (manualDarkMode demo_page)) 0 ''data-theme'' = Some ''dark'' \<and>
   localStorage (themeClick (manualDarkMode demo_page)) ''theme'' = Some ''dark'' \<and>
   getAttribute (manualDarkMode (reload demo_page (themeClick (manualDarkMode demo_page)))) 0
     ''data-theme'' = Some ''dark'' \<and>
   getAttribute (themeClick (manualDarkMode returning_page)) 0 ''data-theme'' = Some ''light'' \<and>
   getAttribute
     (themeClick (manualDarkMode (demo_page\<lparr>localStorage := [''theme'' \<mapsto> ''sepia'']\<rparr>))) 0
     ''data-theme'' = Some ''light'' \<and>
   localStorage
     (themeClick (manualDarkMode (demo_page\<lparr>localStorage := [''theme'' \<mapsto> ''sepia'']\<rparr>)))
     ''theme'' = Some ''light''"
proof -
  have start: "localStorage demo_page ''theme'' = None" "html demo_page = 0"
    "querySelector demo_page (ClassSel ''theme-toggle'') = Some 5"
    "listeners_on demo_page (Node 5) ''click'' = []"
    "localStorage returning_page ''theme'' = Some ''dark''" "html returning_page = 0"
    by code_simp+
  let ?empty = "demo_page\<lparr>localStorage := [''theme'' \<mapsto> []]\<rparr>"
  let ?sepia = "demo_page\<lparr>localStorage := [''theme'' \<mapsto> ''sepia'']\<rparr>"
  note load = manual_dark_mode_toggles [of demo_page 5 demo_page]
  note click = manual_dark_mode_toggles [of "manualDarkMode demo_page" 5 demo_page]
  note load_empty = manual_dark_mode_toggles [of ?empty 5 demo_page, THEN conjunct1]
  note load_dark = manual_dark_mode_toggles [of returning_page 5 demo_page, THEN conjunct1]
  note click_dark = manual_dark_mode_toggles [of "manualDarkMode returning_page" 5 demo_page]
  note load_sepia = manual_dark_mode_toggles [of ?sepia 5 demo_page, THEN conjunct1]
  note click_sepia = manual_dark_mode_toggles [of "manualDarkMode ?sepia" 5 demo_page]
  show ?thesis
    using load click load_empty load_dark click_dark load_sepia click_sepia start
    by (simp add: manualDarkMode_fields)
qed

section \<open>Properties of the active navigation link\<close>

text \<open>
  One pass of the intersection callback over the links: the \<^verbatim>\<open>href\<close> of every element
  stays, and a link of the list is active afterwards exactly when its \<^verbatim>\<open>href\<close> is
  \<^verbatim>\<open>#\<close> followed by the id of the section.
\<close>

lemma activeNavLink_href:
  "getAttribute (activeNavLink i l s) r a = getAttribute s r a"
  by (simp add: activeNavLink_def Let_def prop_defs)

lemma activeNavLink_active:
  "classList_contains (activeNavLink i l s) r ''active'' =
     (if r = l then getAttribute s l ''href'' = Some (hash_id i)
      else classList_contains s r ''active'')"
  by (simp add: activeNavLink_def Let_def prop_defs)

lemma fold_activeNavLink_href:
  "getAttribute (fold (activeNavLink i) ls s) r a = getAttribute s r a"
  by (induction ls arbitrary: s) (simp_all add: activeNavLink_href)

lemma fold_activeNavLink_active:
  "classList_contains (fold (activeNavLink i) ls s) r ''active'' =
     (if r \<in> set ls then getAttribute s r ''href'' = Some (hash_id i)
      else classList_contains s r ''active'')"
  by (induction ls arbitrary: s)
     (auto simp add: activeNavLink_active activeNavLink_href fold_activeNavLink_href)

lemma activeNavEntry_href:
  "getAttribute (activeNavEntry navLinks entry s) r ''href'' = getAttribute s r ''href''"
  by (simp add: activeNavEntry_def Let_def fold_activeNavLink_href)

lemma activeNavEntry_links:
  "isIntersecting entry \<Longrightarrow>
     active_links (activeNavEntry navLinks entry s) navLinks
       = links_to s navLinks (hash_id (getAttribute s (entry_target entry) ''id''))"
  by (simp add: activeNavEntry_def Let_def active_links_def links_to_def
        fold_activeNavLink_active cong: filter_cong)

lemma distinct_hrefs_links_to:
  assumes "distinct_hrefs s navLinks"
  shows "length (links_to s navLinks h) \<le> 1"
proof -
  have "distinct (map (\<lambda>l. getAttribute s l ''href'') (links_to s navLinks h))"
    using assms unfolding distinct_hrefs_def links_to_def by (simp add: distinct_map_filter)
  moreover have "set (map (\<lambda>l. getAttribute s l ''href'') (links_to s navLinks h)) \<subseteq> {Some h}"
    by (auto simp add: links_to_def)
  ultimately have "length (map (\<lambda>l. getAttribute s l ''href'') (links_to s navLinks h)) \<le> card {Some h}"
    by (metis card_mono distinct_card finite.emptyI finite.insertI)
  then show ?thesis by simp
qed

lemma distinct_hrefs_links_to_one:
  assumes d: "distinct_hrefs s navLinks" and l: "l \<in> set navLinks"
    and h: "getAttribute s l ''href'' = Some h"
  shows "links_to s navLinks h = [l]"
proof -
  have mem: "l \<in> set (links_to s navLinks h)"
    using l h by (simp add: links_to_def)
  have "length (links_to s navLinks h) \<le> 1"
    using d by (rule distinct_hrefs_links_to)
  then show ?thesis
    using mem by (cases "links_to s navLinks h") auto
qed

lemma activeNavEntry_distinct_hrefs:
  "distinct_hrefs (activeNavEntry navLinks entry s) ls = distinct_hrefs s ls"
  by (simp add: distinct_hrefs_def activeNavEntry_href)

lemma activeNavEntry_at_most_one:
  assumes "distinct_hrefs s navLinks" and "length (active_links s navLinks) \<le> 1"
  shows "length (active_links (activeNavEntry navLinks entry s) navLinks) \<le> 1"
proof (cases "isIntersecting entry")
  case True
  then show ?thesis
    using distinct_hrefs_links_to [OF assms(1)] by (simp add: activeNavEntry_links)
next
  case False
  then show ?thesis
    using assms(2) by (simp add: activeNavEntry_def)
qed

lemma activeNavCallback_at_most_one:
  "distinct_hrefs s navLinks \<Longrightarrow> length (active_links s navLinks) \<le> 1 \<Longrightarrow>
     length (active_links (activeNavCallback navLinks entries s) navLinks) \<le> 1"
  unfolding activeNavCallback_def
proof (induction entries arbitrary: s)
  case Nil
  then show ?case by simp
next
  case (Cons entry entries)
  have "distinct_hrefs (activeNavEntry navLinks entry s) navLinks"
    using Cons.prems(1) by (simp add: activeNavEntry_distinct_hrefs)
  moreover have "length (active_links (activeNavEntry navLinks entry s) navLinks) \<le> 1"
    using Cons.prems by (rule activeNavEntry_at_most_one)
  ultimately show ?case
    using Cons.IH by simp
qed

text \<open>
  The smooth-scroll handler, when it finds its target and the navigation bar: the
  clicked link is active afterwards and no other link of the list is.
\<close>

lemma fold_remove_active:
  "classList_contains (fold (\<lambda>l. classList_remove l ''active'') ls s) r ''active'' =
     (r \<notin> set ls \<and> classList_contains s r ''active'')"
  by (induction ls arbitrary: s) (auto simp add: prop_defs)

lemma scrollClick_success_active:
  assumes "querySelector_text s (getAttribute s link ''href'') = Inr (Some t)"
    and "querySelector s (ClassSel ''nav'') = Some n"
  shows "classList_contains (snd (snd (scrollClick navLinks link e s))) r ''active'' =
           (r = link \<or> r \<notin> set navLinks \<and> classList_contains s r ''active'')"
proof -
  have "classList_contains (classList_add link ''active'' s') r ''active'' =
          (r = link \<or> classList_contains s' r ''active'')" for s'
    by (simp add: prop_defs)
  moreover have "classList_contains (scrollTo y s) r ''active'' = classList_contains s r ''active''" for y
    by (simp add: scrollTo_def classList_contains_def)
  ultimately show ?thesis
    using assms by (simp add: scrollClick_def Let_def fold_remove_active)
qed

lemma scrollClick_success_links:
  assumes "querySelector_text s (getAttribute s link ''href'') = Inr (Some t)"
    and "querySelector s (ClassSel ''nav'') = Some n"
    and "distinct navLinks" and "link \<in> set navLinks"
  shows "active_links (snd (snd (scrollClick navLinks link e s))) navLinks = [link]"
proof -
  have "active_links (snd (snd (scrollClick navLinks link e s))) navLinks
          = filter (\<lambda>r. r = link) navLinks"
    unfolding active_links_def
    by (rule filter_cong) (simp_all add: scrollClick_success_active [OF assms(1,2)])
  also have "\<dots> = [link]"
    using assms(3,4) by (induction navLinks) (auto simp add: filter_empty_conv)
  finally show ?thesis .
qed

lemma scrollClick_otherwise:
  "(\<exists>t n. querySelector_text s (getAttribute s link ''href'') = Inr (Some t) \<and>
          querySelector s (ClassSel ''nav'') = Some n) \<or>
   snd (snd (scrollClick navLinks link e s)) = s"
  by (simp add: scrollClick_def Let_def split: sum.split option.split)

lemma scrollClick_at_most_one:
  assumes "distinct navLinks" and "link \<in> set navLinks"
    and "length (active_links s navLinks) \<le> 1"
  shows "length (active_links (snd (snd (scrollClick navLinks link e s))) navLinks) \<le> 1"
  using scrollClick_otherwise [of s link navLinks e] scrollClick_success_links [of s link _ _ navLinks e]
    assms by auto


text \<open>
  Claim C6 as stated fails: on the sample page the section \<^verbatim>\<open>#components\<close> (element 15)
  is observed and no navigation link points at it; when the callback sees it in view,
  the number of active links is not one.
\<close>

theorem section_without_link_none_active:
  "querySelectorAll demo_page (ClassSel ''nav__link'') = [7, 8] \<and>
   querySelectorAll demo_page (ClassAttrSel ''section'' ''id'') = [9, 13, 15] \<and>
   length (active_links
             (activeNavCallback [7, 8] [\<lparr>entry_target = 15, isIntersecting = True\<rparr>] demo_page)
             [7, 8]) \<noteq> 1"
  by code_simp

text \<open>
  Claim C6, amended.  When the callback sees a section in view, the links that are
  active afterwards are exactly the links whose \<^verbatim>\<open>href\<close> is \<^verbatim>\<open>#\<close> followed by the id of
  that section; an entry that is not in view changes nothing.  Where the links have
  pairwise different \<^verbatim>\<open>href\<close>s there is at most one such link, and exactly one if some
  link has that \<^verbatim>\<open>href\<close>.  With pairwise different \<^verbatim>\<open>href\<close>s and at most one active link
  to start with, at most one link is active after any run of the callback and after
  any click handled by the smooth-scroll handler; a click whose target and navigation
  bar are found leaves exactly the clicked link active.
\<close>

theorem active_links_follow_section:
  "(isIntersecting entry \<longrightarrow>
      active_links (activeNavEntry navLinks entry s) navLinks
        = links_to s navLinks (hash_id (getAttribute s (entry_target entry) ''id''))) \<and>
   (\<not> isIntersecting entry \<longrightarrow> activeNavEntry navLinks entry s = s) \<and>
   (distinct_hrefs s navLinks \<longrightarrow> length (links_to s navLinks h) \<le> 1) \<and>
   (distinct_hrefs s navLinks \<and> l \<in> set navLinks \<and> getAttribute s l ''href'' = Some h \<longrightarrow>
      links_to s navLinks h = [l]) \<and>
   (distinct_hrefs s navLinks \<and> length (active_links s navLinks) \<le> 1 \<longrightarrow>
      length (active_links (activeNavCallback navLinks entries s) navLinks) \<le> 1) \<and>
   (distinct navLinks \<and> link \<in> set navLinks \<and> length (active_links s navLinks) \<le> 1 \<longrightarrow>
      length (active_links (snd (snd (scrollClick navLinks link e s))) navLinks) \<le> 1) \<and>
   (distinct navLinks \<and> link \<in> set navLinks \<and>
    querySelector_text s (getAttribute s link ''href'') = Inr (Some t) \<and>
    querySelector s (ClassSel ''nav'') = Some n \<longrightarrow>
      active_links (snd (snd (scrollClick navLinks link e s))) navLinks = [link])"
proof -
  have "\<not> isIntersecting entry \<longrightarrow> activeNavEntry navLinks entry s = s"
    by (simp add: activeNavEntry_def)
  then show ?thesis
    using activeNavEntry_links [of entry navLinks s]
      distinct_hrefs_links_to [of s navLinks h]
      distinct_hrefs_links_to_one [of s navLinks l h]
      activeNavCallback_at_most_one [of s navLinks entries]
      scrollClick_at_most_one [of navLinks link s e]
      scrollClick_success_links [of s link t n navLinks e]
    by blast
qed

theorem active_links_follow_section_witness:
  "distinct_hrefs demo_page [7, 8] \<and> active_links demo_page [7, 8] = [] \<and>
   active_links (activeNavEntry [7, 8] \<lparr>entry_target = 13, isIntersecting = True\<rparr> demo_page) [7, 8]
     = [8] \<and>
   activeNavEntry [7, 8] \<lparr>entry_target = 13, isIntersecting = False\<rparr> demo_page = demo_page \<and>
   length (active_links
             (activeNavCallback [7, 8]
                [\<lparr>entry_target = 13, isIntersecting = True\<rparr>,
                 \<lparr>entry_target = 9, isIntersecting = True\<rparr>] demo_page) [7, 8]) \<le> 1 \<and>
   active_links (snd (snd (scrollClick [7, 8] 7 demo_click demo_page))) [7, 8] = [7]"
proof -
  have start:
    "distinct_hrefs demo_page [7, 8]" "active_links demo_page [7, 8] = []"
    "getAttribute demo_page 8 ''href'' = Some ''#animations''"
    "hash_id (getAttribute demo_page 13 ''id'') = ''#animations''"
    "querySelector_text demo_page (getAttribute demo_page 7 ''href'') = Inr (Some 9)"
    "querySelector demo_page (ClassSel ''nav'') = Some 3"
    by code_simp+
  note seen = active_links_follow_section
    [of "\<lparr>entry_target = 13, isIntersecting = True\<rparr>" "[7, 8]" demo_page "''#animations''" 8
        "[\<lparr>entry_target = 13, isIntersecting = True\<rparr>, \<lparr>entry_target = 9, isIntersecting = True\<rparr>]"
        7 demo_click 9 3]
  note unseen = active_links_follow_section
    [of "\<lparr>entry_target = 13, isIntersecting = False\<rparr>" "[7, 8]" demo_page,
     THEN conjunct2, THEN conjunct1]
  show ?thesis
    using seen unseen start by simp
qed

section \<open>Properties of the toast\<close>

























































end
